theory Spec2Isabelle
  imports Main "HOL-Library.Sublist"
begin

section \<open>The proposal dashboard (src/pages/Dashboard.tsx)\<close>

text \<open>
  The dashboard is a React component: seven pieces of local state, two effects (the
  initial load and the filter recomputation) and three handlers (delete, select,
  send e-mail). Each effect and handler is embedded as a function from the component
  state to the component state. Notifications (\<^verbatim>\<open>toast\<close>) and log lines
  (\<^verbatim>\<open>console.error\<close>) are appended to two lists carried in the state, so that what
  a handler emits can be counted.
\<close>

subsection \<open>The string primitives the component calls\<close>

text \<open>
  A string is a list of code units. The model covers code units below 256 (Latin-1),
  on which \<^verbatim>\<open>String.prototype.toLowerCase\<close> works unit by unit: \<open>A\<close>..\<open>Z\<close> and the
  accented capitals 192..222 (without the multiplication sign 215) move up by 32, every
  other unit stays.
\<close>

definition lowerChar :: "char \<Rightarrow> char" where
  "lowerChar c =
     (let n = (of_char c :: nat)
      in if (65 \<le> n \<and> n \<le> 90) \<or> (192 \<le> n \<and> n \<le> 222 \<and> n \<noteq> 215)
         then char_of (n + 32) else c)"

definition toLowerCase :: "string \<Rightarrow> string" where
  "toLowerCase str = map lowerChar str"

text \<open>
  \<^verbatim>\<open>String.prototype.trim\<close> removes white space and line terminators from both ends.
  Below 256 these are TAB, LF, VT, FF, CR, the space and the no-break space.
\<close>

definition isWhiteSpace :: "char \<Rightarrow> bool" where
  "isWhiteSpace c = ((of_char c :: nat) \<in> {9, 10, 11, 12, 13, 32, 160})"

definition trim :: "string \<Rightarrow> string" where
  "trim str = rev (dropWhile isWhiteSpace (rev (dropWhile isWhiteSpace str)))"

text \<open>
  \<^verbatim>\<open>str.includes(q)\<close>: does \<open>q\<close> occur in \<open>str\<close> as a contiguous run, starting at some
  position? The empty string occurs in every string. The function is named
  \<open>includesStr\<close> here.
\<close>

fun includesStr :: "string \<Rightarrow> string \<Rightarrow> bool" where
  "includesStr [] q = (q = [])"
| "includesStr (c # str) q = (prefix q (c # str) \<or> includesStr str q)"

text \<open>
  Truthiness of a value of type \<^verbatim>\<open>string | null\<close> (or of an optional string field):
  \<^verbatim>\<open>null\<close>, \<^verbatim>\<open>undefined\<close> and the empty string are falsy.
\<close>

definition truthy :: "string option \<Rightarrow> bool" where
  "truthy v = (case v of None \<Rightarrow> False | Some str \<Rightarrow> str \<noteq> [])"

subsection \<open>Data model\<close>

text \<open>
  Modelled from the spec: the type \<^verbatim>\<open>Proposal\<close> is imported from
  \<^verbatim>\<open>@/types/proposal\<close>, which is not among the sources. The record has the four
  fields the component reads; \<open>clientEmail\<close> is optional. The field \<^verbatim>\<open>id\<close> is named
  \<open>idP\<close> here.
\<close>

record proposal =
  idP :: string
  clientName :: string
  clientEmail :: "string option"
  tags :: "string list"

text \<open>The email template options: pairs of \<^verbatim>\<open>value\<close> and \<^verbatim>\<open>label\<close>.\<close>

definition emailTemplateOptions :: "(string \<times> string) list" where
  "emailTemplateOptions =
     [(''standard'', ''Standard Proposal''),
      (''detailed'', ''Detailed Breakdown''),
      (''summary'', ''Brief Summary''),
      (''formal'', ''Formal Business Proposal'')]"

text \<open>The union type \<^verbatim>\<open>"name" | "tags"\<close> of \<^verbatim>\<open>searchBy\<close>.\<close>

datatype searchField = Name | Tags

text \<open>
  A notification is its kind and its message: \<^verbatim>\<open>toast(m)\<close> is the plain
  (informational) kind, \<^verbatim>\<open>toast.error(m)\<close> and \<^verbatim>\<open>toast.success(m)\<close> the other two.
\<close>

datatype toastKind = ToastInfo | ToastError | ToastSuccess

type_synonym notification = "toastKind \<times> string"

text \<open>What a rejected promise carries.\<close>

datatype jsError = JsError string

record viewState =
  proposals :: "proposal list"
  filteredProposals :: "proposal list"
  loading :: bool
  selectedProposal :: "string option"
  selectedTemplate :: string
  searchQuery :: string
  searchBy :: searchField
  toasts :: "notification list"
  console :: "(string \<times> jsError) list"

text \<open>The values given to \<^verbatim>\<open>useState\<close>; nothing has been notified or logged yet.\<close>

definition initialState :: viewState where
  "initialState =
     \<lparr> proposals = [], filteredProposals = [], loading = True,
       selectedProposal = None, selectedTemplate = ''standard'',
       searchQuery = [], searchBy = Name, toasts = [], console = [] \<rparr>"

text \<open>
  The external collaborator \<^verbatim>\<open>@/services/proposalService\<close> is a parameter: its two
  functions act on a state \<open>'w\<close> of their own, and each call either resolves with a value
  or rejects with an error.
\<close>

record 'w proposalService =
  fetchProposals :: "'w \<Rightarrow> (jsError + proposal list) \<times> 'w"
  deleteProposal :: "string \<Rightarrow> 'w \<Rightarrow> (jsError + unit) \<times> 'w"

subsection \<open>Effects and handlers\<close>

definition toast :: "toastKind \<Rightarrow> string \<Rightarrow> viewState \<Rightarrow> viewState" where
  "toast k m s = s\<lparr>toasts := toasts s @ [(k, m)]\<rparr>"

definition consoleError :: "string \<Rightarrow> jsError \<Rightarrow> viewState \<Rightarrow> viewState" where
  "consoleError m e s = s\<lparr>console := console s @ [(m, e)]\<rparr>"

text \<open>
  The load effect: \<^verbatim>\<open>try { setLoading(true); data = await fetchProposals(); ... }
  catch { console.error } finally { setLoading(false) }\<close>.
\<close>

definition loadProposals ::
  "'w proposalService \<Rightarrow> viewState \<times> 'w \<Rightarrow> viewState \<times> 'w" where
  "loadProposals svc sw =
     (let s1 = (fst sw)\<lparr>loading := True\<rparr>
      in case fetchProposals svc (snd sw) of
           (Inr data, w') \<Rightarrow>
             (s1\<lparr>proposals := data, filteredProposals := data, loading := False\<rparr>, w')
         | (Inl e, w') \<Rightarrow>
             ((consoleError ''Failed to load proposals:'' e s1)\<lparr>loading := False\<rparr>, w'))"

text \<open>
  The callback given to \<^verbatim>\<open>proposals.filter\<close>, with \<open>query\<close> the lower-cased search
  query. The last \<^verbatim>\<open>return false\<close> of the source is for a \<^verbatim>\<open>searchBy\<close> that is neither
  \<^verbatim>\<open>"name"\<close> nor \<^verbatim>\<open>"tags"\<close>, which the type excludes.
\<close>

definition matchesQuery :: "searchField \<Rightarrow> string \<Rightarrow> proposal \<Rightarrow> bool" where
  "matchesQuery sb query p =
     (case sb of
        Name \<Rightarrow> includesStr (toLowerCase (clientName p)) query
      | Tags \<Rightarrow> list_ex (\<lambda>tag. includesStr (toLowerCase tag) query) (tags p))"

text \<open>The value the filter effect hands to \<^verbatim>\<open>setFilteredProposals\<close>.\<close>

definition computeFiltered :: "proposal list \<Rightarrow> searchField \<Rightarrow> string \<Rightarrow> proposal list" where
  "computeFiltered ps sb q =
     (if trim q = [] then ps
      else filter (matchesQuery sb (toLowerCase q)) ps)"

definition filterEffect :: "viewState \<Rightarrow> viewState" where
  "filterEffect s =
     s\<lparr>filteredProposals := computeFiltered (proposals s) (searchBy s) (searchQuery s)\<rparr>"

text \<open>
  \<^verbatim>\<open>handleDelete\<close>: both awaits are inside one \<^verbatim>\<open>try\<close>; whichever rejects, the
  \<^verbatim>\<open>catch\<close> logs and no setter runs.
\<close>

definition handleDelete ::
  "'w proposalService \<Rightarrow> string \<Rightarrow> viewState \<times> 'w \<Rightarrow> viewState \<times> 'w" where
  "handleDelete svc i sw =
     (case deleteProposal svc i (snd sw) of
        (Inl e, w1) \<Rightarrow> (consoleError ''Failed to delete proposal:'' e (fst sw), w1)
      | (Inr u, w1) \<Rightarrow>
          (case fetchProposals svc w1 of
             (Inl e, w2) \<Rightarrow> (consoleError ''Failed to delete proposal:'' e (fst sw), w2)
           | (Inr updatedProposals, w2) \<Rightarrow>
               ((fst sw)\<lparr>proposals := updatedProposals,
                         filteredProposals := updatedProposals\<rparr>, w2)))"

definition handleProposalSelect :: "string \<Rightarrow> viewState \<Rightarrow> viewState" where
  "handleProposalSelect i s =
     s\<lparr>selectedProposal := (if Some i = selectedProposal s then None else Some i)\<rparr>"

definition handleSendEmail :: "viewState \<Rightarrow> viewState" where
  "handleSendEmail s =
     (if \<not> truthy (selectedProposal s)
      then toast ToastInfo ''Please select a proposal to send'' s
      else case find (\<lambda>p. Some (idP p) = selectedProposal s) (proposals s) of
             None \<Rightarrow> toast ToastError ''Proposal not found'' s
           | Some p \<Rightarrow>
               (if \<not> truthy (clientEmail p)
                then toast ToastError ''No email address found for this client'' s
                else case clientEmail p of
                       None \<Rightarrow> toast ToastError ''No email address found for this client'' s
                     | Some email \<Rightarrow>
                         toast ToastSuccess
                           (''Email sent to '' @ email @ '' using '' @ selectedTemplate s
                              @ '' template'') s))"

text \<open>The three setters the controls call directly.\<close>

definition setSearchQuery :: "string \<Rightarrow> viewState \<Rightarrow> viewState" where
  "setSearchQuery q s = s\<lparr>searchQuery := q\<rparr>"

definition setSearchBy :: "searchField \<Rightarrow> viewState \<Rightarrow> viewState" where
  "setSearchBy sb s = s\<lparr>searchBy := sb\<rparr>"

definition setSelectedTemplate :: "string \<Rightarrow> viewState \<Rightarrow> viewState" where
  "setSelectedTemplate t s = s\<lparr>selectedTemplate := t\<rparr>"

subsection \<open>The invariant of the filtered view, and values for the examples\<close>

text \<open>
  What the component keeps between \<open>proposals\<close> and \<open>filteredProposals\<close>: the second is
  the first with elements left out, in the same order, and with an empty query nothing
  is left out.
\<close>

definition filteredInv :: "viewState \<Rightarrow> bool" where
  "filteredInv s \<longleftrightarrow>
     subseq (filteredProposals s) (proposals s)
     \<and> (searchQuery s = [] \<longrightarrow> filteredProposals s = proposals s)"

text \<open>Two proposals and two collaborators on which the theorems below are run.\<close>

definition acme :: proposal where
  "acme = \<lparr> idP = ''p1'', clientName = ''Acme Corp'', clientEmail = Some ''a@b.com'',
            tags = [''Urgent'', ''retail''] \<rparr>"

definition globex :: proposal where
  "globex = \<lparr> idP = ''p2'', clientName = ''Globex Retail'', clientEmail = None,
              tags = [''draft''] \<rparr>"

text \<open>A collaborator that keeps the collection in memory and never fails.\<close>

definition memoryService :: "(proposal list) proposalService" where
  "memoryService =
     \<lparr> fetchProposals = (\<lambda>w. (Inr w, w)),
       deleteProposal = (\<lambda>i w. (Inr (), filter (\<lambda>p. idP p \<noteq> i) w)) \<rparr>"

text \<open>A collaborator whose every call is rejected.\<close>

definition offlineService :: "(proposal list) proposalService" where
  "offlineService =
     \<lparr> fetchProposals = (\<lambda>w. (Inl (JsError ''offline''), w)),
       deleteProposal = (\<lambda>i w. (Inl (JsError ''offline''), w)) \<rparr>"

text \<open>
  Two component states for the examples: one in which the query \<open>glo\<close> narrows the
  table to one row, and one in which the row of \<open>acme\<close> is selected.
\<close>

definition browsing :: viewState where
  "browsing = initialState\<lparr>proposals := [acme, globex], filteredProposals := [globex],
      loading := False, searchQuery := ''glo''\<rparr>"

definition picked :: viewState where
  "picked = initialState\<lparr>proposals := [acme, globex], filteredProposals := [acme, globex],
      loading := False, selectedProposal := Some ''p1''\<rparr>"

text \<open>
  The states the component can be in, together with the state of the collaborator: it is
  mounted with the initial state, and then the load, the filter effect, the handlers and
  the setters of the controls run in any order, while the collaborator's own state may
  change in between.
\<close>

inductive reachable :: "'w proposalService \<Rightarrow> viewState \<times> 'w \<Rightarrow> bool"
  for svc :: "'w proposalService" where
  mounted: "reachable svc (initialState, w)"
| loaded: "reachable svc sw \<Longrightarrow> reachable svc (loadProposals svc sw)"
| refiltered: "reachable svc (s, w) \<Longrightarrow> reachable svc (filterEffect s, w)"
| deleted: "reachable svc sw \<Longrightarrow> reachable svc (handleDelete svc i sw)"
| selected: "reachable svc (s, w) \<Longrightarrow> reachable svc (handleProposalSelect i s, w)"
| sent: "reachable svc (s, w) \<Longrightarrow> reachable svc (handleSendEmail s, w)"
| typed: "reachable svc (s, w) \<Longrightarrow> reachable svc (setSearchQuery q s, w)"
| field_chosen: "reachable svc (s, w) \<Longrightarrow> reachable svc (setSearchBy sb s, w)"
| template_chosen: "reachable svc (s, w) \<Longrightarrow> reachable svc (setSelectedTemplate t s, w)"
| world_changed: "reachable svc (s, w) \<Longrightarrow> reachable svc (s, w')"

section \<open>Properties\<close>

subsection \<open>Strings\<close>

lemmas string_eval =
  trim_def isWhiteSpace_def toLowerCase_def lowerChar_def char_of_def bit_Suc_0_iff

text \<open>\<open>includesStr\<close> is the contiguous-substring relation of the library.\<close>

lemma includesStr_sublist: "includesStr str q \<longleftrightarrow> sublist q str"
  by (induction str) (simp_all add: sublist_Cons_right)

lemma trim_Nil: "trim [] = []"
  by (simp add: trim_def)

subsection \<open>The filter\<close>

lemma matchesQuery_Name:
  "matchesQuery Name query = (\<lambda>p. sublist query (toLowerCase (clientName p)))"
  by (rule ext) (simp add: matchesQuery_def includesStr_sublist)

lemma matchesQuery_Tags:
  "matchesQuery Tags query = (\<lambda>p. \<exists>tag\<in>set (tags p). sublist query (toLowerCase tag))"
  by (rule ext) (simp add: matchesQuery_def includesStr_sublist list_ex_iff)

lemma computeFiltered_blank: "trim q = [] \<Longrightarrow> computeFiltered ps sb q = ps"
  by (simp add: computeFiltered_def)

lemma computeFiltered_nonblank:
  "trim q \<noteq> [] \<Longrightarrow> computeFiltered ps sb q = filter (matchesQuery sb (toLowerCase q)) ps"
  by (simp add: computeFiltered_def)

lemma computeFiltered_subseq: "subseq (computeFiltered ps sb q) ps"
  by (simp add: computeFiltered_def)

text \<open>
  C1 as the spec has it: the filtered list holds exactly the proposals whose chosen
  field contains, without regard to case, the query trimmed of surrounding white space.
  The code trims only to decide whether the query is blank; it matches against the query
  as typed. The proposal named \<open>Acme Corp\<close> contains the trimmed query \<open>Acme\<close>, and the
  query \<open>Acme\<close> with a space on each side filters it out.
\<close>

theorem filter_trimmed_query_counterexample:
  "trim '' Acme '' = ''Acme''
   \<and> sublist (toLowerCase (trim '' Acme '')) (toLowerCase (clientName acme))
   \<and> computeFiltered [acme] Name '' Acme '' = []"
  by (simp add: computeFiltered_def matchesQuery_def acme_def string_eval
      includesStr_sublist [symmetric])

text \<open>
  C1, amended: when the trimmed query is empty the filtered list is the full list;
  otherwise it is the full list restricted, in order, to exactly the proposals whose
  chosen field (the client name, or some tag) contains the lower-cased query as typed,
  surrounding white space included.
\<close>

theorem filter_untrimmed_query:
  "(trim q = [] \<longrightarrow> computeFiltered ps sb q = ps)
   \<and> (trim q \<noteq> [] \<longrightarrow>
        computeFiltered ps Name q =
          filter (\<lambda>p. sublist (toLowerCase q) (toLowerCase (clientName p))) ps
        \<and> computeFiltered ps Tags q =
          filter (\<lambda>p. \<exists>tag\<in>set (tags p). sublist (toLowerCase q) (toLowerCase tag)) ps)"
  by (simp add: computeFiltered_def matchesQuery_Name matchesQuery_Tags)

theorem filter_untrimmed_query_witness:
  "trim ''  '' = [] \<and> computeFiltered [acme, globex] Tags ''  '' = [acme, globex]
   \<and> trim ''RETAIL'' \<noteq> []
   \<and> computeFiltered [acme, globex] Name ''RETAIL'' = [globex]
   \<and> computeFiltered [acme, globex] Tags ''RETAIL'' = [acme]"
  using filter_untrimmed_query [of "''  ''" "[acme, globex]" Tags]
    filter_untrimmed_query [of "''RETAIL''" "[acme, globex]" Tags]
  by (simp add: acme_def globex_def string_eval includesStr_sublist [symmetric])

subsection \<open>Sending the e-mail\<close>

lemma toasts_toast: "toasts (toast k m s) = toasts s @ [(k, m)]"
  by (simp add: toast_def)

lemma handleSendEmail_toast: "\<exists>k m. handleSendEmail s = toast k m s"
  unfolding handleSendEmail_def by (simp split: option.splits) blast

lemma handleSendEmail_frame: "\<exists>n. handleSendEmail s = s\<lparr>toasts := toasts s @ [n]\<rparr>"
proof -
  obtain k m where "handleSendEmail s = toast k m s"
    using handleSendEmail_toast by blast
  then have "handleSendEmail s = s\<lparr>toasts := toasts s @ [(k, m)]\<rparr>"
    by (simp add: toast_def)
  then show ?thesis ..
qed

lemma handleSendEmail_success:
  "truthy (selectedProposal s) \<Longrightarrow>
   find (\<lambda>p. Some (idP p) = selectedProposal s) (proposals s) = Some p \<Longrightarrow>
   clientEmail p = Some email \<Longrightarrow> email \<noteq> [] \<Longrightarrow>
   handleSendEmail s =
     toast ToastSuccess
       (''Email sent to '' @ email @ '' using '' @ selectedTemplate s @ '' template'') s"
  by (simp add: handleSendEmail_def truthy_def)

text \<open>
  C2 as the spec has it: the success message contains the recipient's address and the
  display label of the chosen template. The message interpolates \<open>selectedTemplate\<close>,
  which holds the option's \<^verbatim>\<open>value\<close>: with the template \<open>detailed\<close>, whose label is
  \<open>Detailed Breakdown\<close>, the message ends in \<open>using detailed template\<close> and the label does
  not occur in it.
\<close>

theorem send_email_label_counterexample:
  "map_of emailTemplateOptions ''detailed'' = Some ''Detailed Breakdown''
   \<and> toasts (handleSendEmail
        (initialState\<lparr>proposals := [acme], selectedProposal := Some ''p1'',
                       selectedTemplate := ''detailed''\<rparr>))
     = [(ToastSuccess, ''Email sent to a@b.com using detailed template'')]
   \<and> \<not> sublist ''Detailed Breakdown'' ''Email sent to a@b.com using detailed template''"
  by (simp add: emailTemplateOptions_def handleSendEmail_def initialState_def acme_def
      truthy_def toast_def includesStr_sublist [symmetric])

text \<open>
  C2, amended: when the selected id is a non-empty string, the first proposal with that
  id has a non-empty \<open>clientEmail\<close>, the send-email action emits one success notification
  whose message contains the recipient's address and the identifier of the chosen
  template (the value held in \<open>selectedTemplate\<close>).
\<close>

theorem send_email_success_message:
  assumes "selectedProposal s = Some i" and "i \<noteq> []"
    and "find (\<lambda>p. Some (idP p) = selectedProposal s) (proposals s) = Some p"
    and "clientEmail p = Some email" and "email \<noteq> []"
  shows "\<exists>m. toasts (handleSendEmail s) = toasts s @ [(ToastSuccess, m)]
           \<and> m = ''Email sent to '' @ email @ '' using '' @ selectedTemplate s @ '' template''
           \<and> sublist email m \<and> sublist (selectedTemplate s) m"
proof -
  let ?m = "''Email sent to '' @ email @ '' using '' @ selectedTemplate s @ '' template''"
  from assms(1,2) have sel: "truthy (selectedProposal s)"
    by (simp add: truthy_def)
  have "handleSendEmail s = toast ToastSuccess ?m s"
    using sel assms(3,4,5) by (rule handleSendEmail_success)
  then have t: "toasts (handleSendEmail s) = toasts s @ [(ToastSuccess, ?m)]"
    by (simp add: toasts_toast)
  have e: "sublist email ?m"
    unfolding sublist_def by blast
  have "?m = (''Email sent to '' @ email @ '' using '') @ selectedTemplate s @ '' template''"
    by simp
  then have l: "sublist (selectedTemplate s) ?m"
    unfolding sublist_def by blast
  from t e l show ?thesis by blast
qed

theorem send_email_success_message_witness:
  "\<exists>m. toasts (handleSendEmail
        (initialState\<lparr>proposals := [globex, acme], selectedProposal := Some ''p1'',
                       selectedTemplate := ''detailed''\<rparr>))
       = [(ToastSuccess, m)]
     \<and> m = ''Email sent to a@b.com using detailed template''
     \<and> sublist ''a@b.com'' m \<and> sublist ''detailed'' m"
  using send_email_success_message
    [of "initialState\<lparr>proposals := [globex, acme], selectedProposal := Some ''p1'',
                       selectedTemplate := ''detailed''\<rparr>" "''p1''" acme "''a@b.com''"]
  by (simp add: initialState_def acme_def globex_def)

text \<open>
  C3: the send-email action makes its checks in order, and whichever fails first appends
  exactly one notification and ends the action. An absent selection (\<^verbatim>\<open>null\<close>, or the
  empty string, which JavaScript also takes as falsy) gives the informational notice;
  a selection that no proposal carries gives the error \<open>Proposal not found\<close>; a found
  proposal whose address is absent (or empty) gives the error naming the missing email
  address. A success notification is what is appended exactly when all three checks pass.
\<close>

theorem send_email_validation_chain:
  "(\<not> truthy (selectedProposal s) \<longrightarrow>
      toasts (handleSendEmail s) = toasts s @ [(ToastInfo, ''Please select a proposal to send'')])
   \<and> (truthy (selectedProposal s)
       \<and> find (\<lambda>p. Some (idP p) = selectedProposal s) (proposals s) = None \<longrightarrow>
      toasts (handleSendEmail s) = toasts s @ [(ToastError, ''Proposal not found'')])
   \<and> (truthy (selectedProposal s)
       \<and> find (\<lambda>p. Some (idP p) = selectedProposal s) (proposals s) = Some p
       \<and> \<not> truthy (clientEmail p) \<longrightarrow>
      toasts (handleSendEmail s) =
        toasts s @ [(ToastError, ''No email address found for this client'')])
   \<and> ((\<exists>m. toasts (handleSendEmail s) = toasts s @ [(ToastSuccess, m)]) \<longleftrightarrow>
        truthy (selectedProposal s)
        \<and> (\<exists>p'. find (\<lambda>p. Some (idP p) = selectedProposal s) (proposals s) = Some p'
                 \<and> truthy (clientEmail p')))"
  by (auto simp: handleSendEmail_def toast_def truthy_def split: option.splits)

theorem send_email_validation_chain_witness:
  "\<not> truthy (selectedProposal (initialState\<lparr>proposals := [acme, globex]\<rparr>))
   \<and> toasts (handleSendEmail (initialState\<lparr>proposals := [acme, globex]\<rparr>))
       = [(ToastInfo, ''Please select a proposal to send'')]
   \<and> truthy (Some ''p9'')
   \<and> find (\<lambda>p. Some (idP p) = Some ''p9'') [acme, globex] = None
   \<and> toasts (handleSendEmail
        (initialState\<lparr>proposals := [acme, globex], selectedProposal := Some ''p9''\<rparr>))
       = [(ToastError, ''Proposal not found'')]
   \<and> find (\<lambda>p. Some (idP p) = Some ''p2'') [acme, globex] = Some globex
   \<and> \<not> truthy (clientEmail globex)
   \<and> toasts (handleSendEmail
        (initialState\<lparr>proposals := [acme, globex], selectedProposal := Some ''p2''\<rparr>))
       = [(ToastError, ''No email address found for this client'')]
   \<and> find (\<lambda>p. Some (idP p) = Some ''p1'') [acme, globex] = Some acme
   \<and> truthy (clientEmail acme)
   \<and> (\<exists>m. toasts (handleSendEmail
        (initialState\<lparr>proposals := [acme, globex], selectedProposal := Some ''p1''\<rparr>))
       = [(ToastSuccess, m)])"
  using send_email_validation_chain [of "initialState\<lparr>proposals := [acme, globex]\<rparr>"]
    send_email_validation_chain
      [of "initialState\<lparr>proposals := [acme, globex], selectedProposal := Some ''p9''\<rparr>"]
    send_email_validation_chain
      [of "initialState\<lparr>proposals := [acme, globex], selectedProposal := Some ''p2''\<rparr>" globex]
    send_email_validation_chain
      [of "initialState\<lparr>proposals := [acme, globex], selectedProposal := Some ''p1''\<rparr>"]
  by (simp add: initialState_def acme_def globex_def truthy_def)

text \<open>
  C9: in every branch the send-email action returns the state it was given with one
  notification appended; the six state variables of the claim, the loading flag and the
  log are as they were.
\<close>

theorem send_email_frame:
  "(\<exists>n. toasts (handleSendEmail s) = toasts s @ [n])
   \<and> proposals (handleSendEmail s) = proposals s
   \<and> filteredProposals (handleSendEmail s) = filteredProposals s
   \<and> selectedProposal (handleSendEmail s) = selectedProposal s
   \<and> selectedTemplate (handleSendEmail s) = selectedTemplate s
   \<and> searchQuery (handleSendEmail s) = searchQuery s
   \<and> searchBy (handleSendEmail s) = searchBy s
   \<and> loading (handleSendEmail s) = loading s
   \<and> console (handleSendEmail s) = console s"
proof -
  obtain n where "handleSendEmail s = s\<lparr>toasts := toasts s @ [n]\<rparr>"
    using handleSendEmail_frame by blast
  then show ?thesis by simp
qed

subsection \<open>Selecting a row\<close>

text \<open>
  C5 as the spec has it: from every selection state, selecting the same id twice in a
  row leaves the selection empty. The handler toggles: when the row of \<open>p1\<close> is already
  selected, the first click clears the selection and the second selects \<open>p1\<close> again.
\<close>

theorem select_twice_counterexample:
  "selectedProposal picked = Some ''p1''
   \<and> selectedProposal (handleProposalSelect ''p1'' picked) = None
   \<and> selectedProposal (handleProposalSelect ''p1'' (handleProposalSelect ''p1'' picked))
       = Some ''p1''"
  by (simp add: handleProposalSelect_def picked_def initialState_def)

text \<open>
  C5, amended: from every selection state, selecting the id that is selected clears the
  selection, and selecting any other id makes it the selection. So two clicks in a row
  on the same id leave the selection empty when that id was not selected before, and
  leave the id selected when it was. Selecting \<open>i\<close> and then a different \<open>j\<close> leaves \<open>j\<close>
  alone selected, and after a click the selection is either empty or the id clicked,
  never more than one id.
\<close>

theorem select_toggles:
  "(selectedProposal s = Some i \<longrightarrow>
        selectedProposal (handleProposalSelect i s) = None
        \<and> selectedProposal (handleProposalSelect i (handleProposalSelect i s)) = Some i)
   \<and> (selectedProposal s \<noteq> Some i \<longrightarrow>
        selectedProposal (handleProposalSelect i s) = Some i
        \<and> selectedProposal (handleProposalSelect i (handleProposalSelect i s)) = None)
   \<and> (i \<noteq> j \<longrightarrow>
        selectedProposal (handleProposalSelect j (handleProposalSelect i s)) = Some j)
   \<and> (selectedProposal (handleProposalSelect i s) = None
        \<or> selectedProposal (handleProposalSelect i s) = Some i)"
  by (auto simp: handleProposalSelect_def)

theorem select_toggles_witness:
  "selectedProposal (initialState\<lparr>selectedProposal := Some ''p1''\<rparr>) = Some ''p1''
   \<and> selectedProposal (handleProposalSelect ''p1''
        (initialState\<lparr>selectedProposal := Some ''p1''\<rparr>)) = None
   \<and> selectedProposal (handleProposalSelect ''p1'' (handleProposalSelect ''p1''
        (initialState\<lparr>selectedProposal := Some ''p1''\<rparr>))) = Some ''p1''
   \<and> selectedProposal initialState \<noteq> Some ''p1''
   \<and> selectedProposal (handleProposalSelect ''p1'' initialState) = Some ''p1''
   \<and> selectedProposal (handleProposalSelect ''p1'' (handleProposalSelect ''p1'' initialState))
       = None
   \<and> ''p1'' \<noteq> ''p2''
   \<and> selectedProposal (handleProposalSelect ''p2'' (handleProposalSelect ''p1'' initialState))
       = Some ''p2''"
  using select_toggles [of "initialState\<lparr>selectedProposal := Some ''p1''\<rparr>" "''p1''" "''p2''"]
    select_toggles [of initialState "''p1''" "''p2''"]
  by (simp add: initialState_def)

subsection \<open>Filtering by tags\<close>

text \<open>
  C6 as the spec has it: with the field set to tags and a non-empty query, a proposal is
  kept exactly when one of its tags contains the query. The effect filters only when
  the query is not empty once trimmed: the query of one space is not empty, no tag of
  \<open>globex\<close> contains a space, and \<open>globex\<close> is kept, since the full list is handed over.
\<close>

theorem tags_filter_blank_query_counterexample:
  "'' '' \<noteq> []
   \<and> tags globex = [''draft'']
   \<and> \<not> sublist (toLowerCase '' '') (toLowerCase ''draft'')
   \<and> computeFiltered [acme, globex] Tags '' '' = [acme, globex]"
  by (simp add: computeFiltered_def globex_def string_eval includesStr_sublist [symmetric])

text \<open>
  C6, amended: with the field set to tags and a query that is not empty once trimmed
  (the test the effect makes before it filters), a proposal is in the filtered list
  exactly when it is in the full list and at least one of its tags contains the query
  without regard to case. A proposal whose client name contains the query and none of
  whose tags does is left out.
\<close>

theorem tags_filter_any_tag:
  "trim q \<noteq> [] \<Longrightarrow>
   computeFiltered ps Tags q =
     filter (\<lambda>p. \<exists>tag\<in>set (tags p). sublist (toLowerCase q) (toLowerCase tag)) ps
   \<and> (p \<in> set (computeFiltered ps Tags q) \<longleftrightarrow>
        p \<in> set ps \<and> (\<exists>tag\<in>set (tags p). sublist (toLowerCase q) (toLowerCase tag)))
   \<and> (sublist (toLowerCase q) (toLowerCase (clientName p))
        \<and> (\<forall>tag\<in>set (tags p). \<not> sublist (toLowerCase q) (toLowerCase tag)) \<longrightarrow>
        p \<notin> set (computeFiltered ps Tags q))"
  by (simp add: computeFiltered_nonblank matchesQuery_Tags)

theorem tags_filter_any_tag_witness:
  "trim ''RETAIL'' \<noteq> []
   \<and> computeFiltered [acme, globex] Tags ''RETAIL'' = [acme]
   \<and> sublist (toLowerCase ''RETAIL'') (toLowerCase (clientName globex))
   \<and> tags globex = [''draft'']
   \<and> \<not> sublist (toLowerCase ''RETAIL'') (toLowerCase ''draft'')
   \<and> globex \<notin> set (computeFiltered [acme, globex] Tags ''RETAIL'')
   \<and> acme \<in> set (computeFiltered [acme, globex] Tags ''RETAIL'')"
proof -
  have h: "trim ''RETAIL'' \<noteq> []"
    by (simp add: string_eval)
  have n: "sublist (toLowerCase ''RETAIL'') (toLowerCase (clientName globex))"
    by (simp add: globex_def string_eval includesStr_sublist [symmetric])
  have t: "\<forall>tag\<in>set (tags globex). \<not> sublist (toLowerCase ''RETAIL'') (toLowerCase tag)"
    by (simp add: globex_def string_eval includesStr_sublist [symmetric])
  have a: "\<exists>tag\<in>set (tags acme). sublist (toLowerCase ''RETAIL'') (toLowerCase tag)"
    by (simp add: acme_def string_eval includesStr_sublist [symmetric])
  have e: "computeFiltered [acme, globex] Tags ''RETAIL'' = [acme]"
    using tags_filter_any_tag [OF h, of "[acme, globex]" globex] a t by simp
  have g: "tags globex = [''draft'']
           \<and> \<not> sublist (toLowerCase ''RETAIL'') (toLowerCase ''draft'')"
    by (simp add: globex_def string_eval includesStr_sublist [symmetric])
  show ?thesis
    using h n t e g tags_filter_any_tag [OF h, of "[acme, globex]" globex]
      tags_filter_any_tag [OF h, of "[acme, globex]" acme] a
    by simp
qed

subsection \<open>Load and delete\<close>

lemma handleDelete_resolved:
  "deleteProposal svc i w = (Inr u, w1) \<Longrightarrow> fetchProposals svc w1 = (Inr fresh, w2) \<Longrightarrow>
   handleDelete svc i (s, w) = (s\<lparr>proposals := fresh, filteredProposals := fresh\<rparr>, w2)"
  by (simp add: handleDelete_def)

lemma handleDelete_selectedProposal:
  "selectedProposal (fst (handleDelete svc i (s, w))) = selectedProposal s"
  by (simp add: handleDelete_def consoleError_def split: prod.splits sum.splits)

text \<open>
  The filter effect depends on \<open>proposals\<close>, so it runs again after a delete that
  resolved, and then narrows \<open>filteredProposals\<close> to the fresh collection filtered by
  the query still in the search box.
\<close>

lemma handleDelete_then_filterEffect:
  "deleteProposal svc i w = (Inr u, w1) \<Longrightarrow> fetchProposals svc w1 = (Inr fresh, w2) \<Longrightarrow>
   filterEffect (fst (handleDelete svc i (s, w))) =
     s\<lparr>proposals := fresh,
       filteredProposals := computeFiltered fresh (searchBy s) (searchQuery s)\<rparr>"
  by (simp add: handleDelete_resolved filterEffect_def)

text \<open>
  C7: when the deletion resolves and the fetch that follows resolves with a collection,
  \<open>handleDelete\<close> stores that collection into both \<open>proposals\<close> and \<open>filteredProposals\<close>
  and changes nothing else, whatever the id and whatever the query, the field and the
  filtered view were before.
\<close>

theorem delete_then_refetch_replaces_both:
  "deleteProposal svc i w = (Inr u, w1) \<Longrightarrow> fetchProposals svc w1 = (Inr fresh, w2) \<Longrightarrow>
   proposals (fst (handleDelete svc i (s, w))) = fresh
   \<and> filteredProposals (fst (handleDelete svc i (s, w))) = fresh
   \<and> handleDelete svc i (s, w) = (s\<lparr>proposals := fresh, filteredProposals := fresh\<rparr>, w2)"
  by (simp add: handleDelete_resolved)

theorem delete_then_refetch_replaces_both_witness:
  "deleteProposal memoryService ''p2'' [acme, globex] = (Inr (), [acme])
   \<and> fetchProposals memoryService [acme] = (Inr [acme], [acme])
   \<and> searchQuery browsing = ''glo'' \<and> filteredProposals browsing = [globex]
   \<and> proposals (fst (handleDelete memoryService ''p2'' (browsing, [acme, globex]))) = [acme]
   \<and> filteredProposals (fst (handleDelete memoryService ''p2'' (browsing, [acme, globex])))
       = [acme]"
proof -
  have d: "deleteProposal memoryService ''p2'' [acme, globex] = (Inr (), [acme])"
    by (simp add: memoryService_def acme_def globex_def)
  have f: "fetchProposals memoryService [acme] = (Inr [acme], [acme])"
    by (simp add: memoryService_def)
  show ?thesis
    using d f delete_then_refetch_replaces_both [OF d f, of browsing]
    by (simp add: browsing_def)
qed

text \<open>
  C8: the initial load starts from the initial state. If the fetch resolves, the fetched
  collection is stored into both \<open>proposals\<close> and \<open>filteredProposals\<close> (and the filter
  effect, run again with the empty initial query, leaves the state as it is). If the
  fetch is rejected, both stay empty, one line is logged and nothing is notified. The
  loading flag is false afterwards in both cases.
\<close>

theorem initial_load_outcomes:
  "(fetchProposals svc w = (Inr data, w') \<longrightarrow>
      proposals (fst (loadProposals svc (initialState, w))) = data
      \<and> filteredProposals (fst (loadProposals svc (initialState, w))) = data
      \<and> loading (fst (loadProposals svc (initialState, w))) = False
      \<and> filterEffect (fst (loadProposals svc (initialState, w)))
          = fst (loadProposals svc (initialState, w)))
   \<and> (fetchProposals svc w = (Inl e, w') \<longrightarrow>
      proposals (fst (loadProposals svc (initialState, w))) = []
      \<and> filteredProposals (fst (loadProposals svc (initialState, w))) = []
      \<and> toasts (fst (loadProposals svc (initialState, w))) = []
      \<and> console (fst (loadProposals svc (initialState, w)))
          = [(''Failed to load proposals:'', e)]
      \<and> loading (fst (loadProposals svc (initialState, w))) = False)"
  by (simp add: loadProposals_def initialState_def consoleError_def filterEffect_def
      computeFiltered_def trim_Nil)

theorem initial_load_outcomes_witness:
  "fetchProposals memoryService [acme, globex] = (Inr [acme, globex], [acme, globex])
   \<and> proposals (fst (loadProposals memoryService (initialState, [acme, globex])))
       = [acme, globex]
   \<and> filteredProposals (fst (loadProposals memoryService (initialState, [acme, globex])))
       = [acme, globex]
   \<and> loading (fst (loadProposals memoryService (initialState, [acme, globex]))) = False
   \<and> fetchProposals offlineService [acme, globex] = (Inl (JsError ''offline''), [acme, globex])
   \<and> proposals (fst (loadProposals offlineService (initialState, [acme, globex]))) = []
   \<and> filteredProposals (fst (loadProposals offlineService (initialState, [acme, globex]))) = []
   \<and> toasts (fst (loadProposals offlineService (initialState, [acme, globex]))) = []
   \<and> console (fst (loadProposals offlineService (initialState, [acme, globex])))
       = [(''Failed to load proposals:'', JsError ''offline'')]
   \<and> loading (fst (loadProposals offlineService (initialState, [acme, globex]))) = False"
proof -
  have ok: "fetchProposals memoryService [acme, globex] = (Inr [acme, globex], [acme, globex])"
    by (simp add: memoryService_def)
  have ko: "fetchProposals offlineService [acme, globex]
              = (Inl (JsError ''offline''), [acme, globex])"
    by (simp add: offlineService_def)
  show ?thesis
    using ok ko
      initial_load_outcomes
        [of memoryService "[acme, globex]" "[acme, globex]" "[acme, globex]"]
      initial_load_outcomes
        [of offlineService "[acme, globex]" _ "[acme, globex]" "JsError ''offline''"]
    by simp
qed

text \<open>
  C10: \<open>handleDelete\<close> leaves \<open>selectedProposal\<close> as it was in every branch. So when the
  selected id is gone from the collection fetched after the deletion, the selection
  refers to no proposal, and the send-email action then stops at its second check with
  the error \<open>Proposal not found\<close>.
\<close>

theorem delete_keeps_selection:
  "selectedProposal (fst (handleDelete svc i (s, w))) = selectedProposal s
   \<and> (selectedProposal s = Some j \<and> j \<noteq> []
       \<and> deleteProposal svc i w = (Inr u, w1) \<and> fetchProposals svc w1 = (Inr fresh, w2)
       \<and> j \<notin> idP ` set fresh \<longrightarrow>
      find (\<lambda>p. Some (idP p) = selectedProposal (fst (handleDelete svc i (s, w))))
        (proposals (fst (handleDelete svc i (s, w)))) = None
      \<and> toasts (handleSendEmail (fst (handleDelete svc i (s, w))))
          = toasts s @ [(ToastError, ''Proposal not found'')])"
proof -
  have frame: "selectedProposal (fst (handleDelete svc i (s, w))) = selectedProposal s"
    by (rule handleDelete_selectedProposal)
  have dangling:
    "find (\<lambda>p. Some (idP p) = selectedProposal (fst (handleDelete svc i (s, w))))
        (proposals (fst (handleDelete svc i (s, w)))) = None
      \<and> toasts (handleSendEmail (fst (handleDelete svc i (s, w))))
          = toasts s @ [(ToastError, ''Proposal not found'')]"
    if sel: "selectedProposal s = Some j" and ne: "j \<noteq> []"
      and d: "deleteProposal svc i w = (Inr u, w1)"
      and f: "fetchProposals svc w1 = (Inr fresh, w2)"
      and gone: "j \<notin> idP ` set fresh"
  proof -
    let ?s' = "fst (handleDelete svc i (s, w))"
    have s': "?s' = s\<lparr>proposals := fresh, filteredProposals := fresh\<rparr>"
      using d f by (simp add: handleDelete_resolved)
    have nf: "find (\<lambda>p. Some (idP p) = selectedProposal ?s') (proposals ?s') = None"
      using gone sel by (auto simp: s' find_None_iff)
    have tr: "truthy (selectedProposal ?s')"
      using sel ne by (simp add: s' truthy_def)
    have "toasts (handleSendEmail ?s') = toasts ?s' @ [(ToastError, ''Proposal not found'')]"
      using tr nf by (simp add: handleSendEmail_def toast_def)
    then show ?thesis using nf by (simp add: s')
  qed
  from frame dangling show ?thesis by blast
qed

theorem delete_keeps_selection_witness:
  "selectedProposal picked = Some ''p1'' \<and> ''p1'' \<noteq> []
   \<and> deleteProposal memoryService ''p1'' [acme, globex] = (Inr (), [globex])
   \<and> fetchProposals memoryService [globex] = (Inr [globex], [globex])
   \<and> ''p1'' \<notin> idP ` set [globex]
   \<and> selectedProposal (fst (handleDelete memoryService ''p1'' (picked, [acme, globex])))
       = Some ''p1''
   \<and> toasts (handleSendEmail (fst (handleDelete memoryService ''p1'' (picked, [acme, globex]))))
       = [(ToastError, ''Proposal not found'')]"
proof -
  have d: "deleteProposal memoryService ''p1'' [acme, globex] = (Inr (), [globex])"
    by (simp add: memoryService_def acme_def globex_def)
  have f: "fetchProposals memoryService [globex] = (Inr [globex], [globex])"
    by (simp add: memoryService_def)
  have g: "''p1'' \<notin> idP ` set [globex]"
    by (simp add: globex_def)
  have sel: "selectedProposal picked = Some ''p1''"
    by (simp add: picked_def)
  show ?thesis
    using d f g sel
      delete_keeps_selection
        [of memoryService "''p1''" picked "[acme, globex]" "''p1''" "()" "[globex]"
          "[globex]" "[globex]"]
    by (simp add: picked_def initialState_def)
qed

subsection \<open>The filtered view is a subsequence of the collection\<close>

lemma filteredInv_initialState: "filteredInv initialState"
  by (simp add: filteredInv_def initialState_def)

lemma filteredInv_filterEffect: "filteredInv (filterEffect s)"
  by (simp add: filteredInv_def filterEffect_def computeFiltered_subseq
      computeFiltered_blank trim_Nil)

lemma filteredInv_loadProposals:
  "filteredInv s \<Longrightarrow> filteredInv (fst (loadProposals svc (s, w)))"
  by (auto simp: filteredInv_def loadProposals_def consoleError_def Let_def
      split: prod.splits sum.splits)

lemma filteredInv_handleDelete:
  "filteredInv s \<Longrightarrow> filteredInv (fst (handleDelete svc i (s, w)))"
  by (auto simp: filteredInv_def handleDelete_def consoleError_def
      split: prod.splits sum.splits)

text \<open>Rule induction over the transitions: the subsequence relation holds in every state.\<close>

lemma reachable_subseq:
  "reachable svc sw \<Longrightarrow> subseq (filteredProposals (fst sw)) (proposals (fst sw))"
proof (induction rule: reachable.induct)
  case (mounted w)
  show ?case by (simp add: initialState_def)
next
  case (loaded sw)
  then show ?case
    by (auto simp: loadProposals_def consoleError_def Let_def split: prod.splits sum.splits)
next
  case (refiltered s w)
  show ?case by (simp add: filterEffect_def computeFiltered_subseq)
next
  case (deleted sw i)
  then show ?case
    by (auto simp: handleDelete_def consoleError_def split: prod.splits sum.splits)
next
  case (selected s w i)
  then show ?case by (simp add: handleProposalSelect_def)
next
  case (sent s w)
  obtain n where "handleSendEmail s = s\<lparr>toasts := toasts s @ [n]\<rparr>"
    using handleSendEmail_frame by blast
  with sent show ?case by simp
next
  case (typed s w q)
  then show ?case by (simp add: setSearchQuery_def)
next
  case (field_chosen s w sb)
  then show ?case by (simp add: setSearchBy_def)
next
  case (template_chosen s w t)
  then show ?case by (simp add: setSelectedTemplate_def)
next
  case (world_changed s w w')
  then show ?case by simp
qed

text \<open>The state \<open>browsing\<close> is reached by mounting, loading, typing \<open>glo\<close> and the effect.\<close>

lemma reachable_browsing: "reachable memoryService (browsing, [acme, globex])"
proof -
  have "reachable memoryService (loadProposals memoryService (initialState, [acme, globex]))"
    by (intro reachable.loaded reachable.mounted)
  then have "reachable memoryService
     (initialState\<lparr>proposals := [acme, globex], filteredProposals := [acme, globex],
        loading := False\<rparr>, [acme, globex])"
    by (simp add: loadProposals_def memoryService_def)
  then have "reachable memoryService
     (filterEffect (setSearchQuery ''glo''
        (initialState\<lparr>proposals := [acme, globex], filteredProposals := [acme, globex],
           loading := False\<rparr>)), [acme, globex])"
    by (intro reachable.refiltered reachable.typed)
  then show ?thesis
    by (simp add: filterEffect_def setSearchQuery_def browsing_def initialState_def
        computeFiltered_def matchesQuery_def acme_def globex_def string_eval)
qed

text \<open>
  C4: for every collection, field and query the value the filter computes is a
  subsequence of the collection (its elements, in their order), and with the empty
  query it is the collection itself. In every state the component can reach,
  \<open>filteredProposals\<close> is a subsequence of \<open>proposals\<close>. The invariant (subsequence, and
  equality when the query is empty) holds initially, holds after every run of the filter
  effect, and is kept by the load and by the delete, whether they succeed or fail.
\<close>

theorem filtered_is_subsequence:
  "subseq (computeFiltered ps sb q) ps
   \<and> computeFiltered ps sb [] = ps
   \<and> (reachable svc (s, w) \<longrightarrow> subseq (filteredProposals s) (proposals s))
   \<and> filteredInv initialState
   \<and> filteredInv (filterEffect s)
   \<and> (filteredInv s \<longrightarrow>
        filteredInv (fst (loadProposals svc (s, w)))
        \<and> filteredInv (fst (handleDelete svc i (s, w))))"
proof -
  have "subseq (filteredProposals s) (proposals s)" if "reachable svc (s, w)"
    using reachable_subseq [OF that] by simp
  then show ?thesis
    by (simp add: computeFiltered_subseq computeFiltered_blank trim_Nil
        filteredInv_initialState filteredInv_filterEffect filteredInv_loadProposals
        filteredInv_handleDelete)
qed

theorem filtered_is_subsequence_witness:
  "reachable memoryService (browsing, [acme, globex])
   \<and> subseq (filteredProposals browsing) (proposals browsing)
   \<and> filteredInv browsing
   \<and> filteredInv (fst (loadProposals memoryService (browsing, [acme, globex])))
   \<and> filteredInv (fst (loadProposals offlineService (browsing, [acme, globex])))
   \<and> filteredInv (fst (handleDelete memoryService ''p2'' (browsing, [acme, globex])))
   \<and> filteredInv (fst (handleDelete offlineService ''p2'' (browsing, [acme, globex])))
   \<and> filteredProposals (fst (handleDelete memoryService ''p2'' (browsing, [acme, globex])))
       = [acme]
   \<and> filteredProposals (fst (handleDelete offlineService ''p2'' (browsing, [acme, globex])))
       = [globex]"
proof -
  have r: "reachable memoryService (browsing, [acme, globex])"
    by (rule reachable_browsing)
  have h: "filteredInv browsing"
    by (simp add: filteredInv_def browsing_def initialState_def acme_def globex_def)
  show ?thesis
    using r h
      filtered_is_subsequence [of _ _ _ memoryService browsing "[acme, globex]" "''p2''"]
      filtered_is_subsequence [of _ _ _ offlineService browsing "[acme, globex]" "''p2''"]
    by (simp add: handleDelete_def memoryService_def offlineService_def browsing_def
        initialState_def acme_def globex_def consoleError_def)
qed

end
